theory Spec2Isabelle
  imports Main "HOL-Library.Word"
begin

unbundle bit_operations_syntax

section \<open>Go values as orm.go reaches them through reflect\<close>

text \<open>
  The session layer of the ORM (pkg/orm/orm.go) is a set of thin wrappers: each resolves the
  model descriptor of its argument, calls the dialect backend (\<open>o.alias.DbBaser\<close>), and
  writes the identity field of the caller's record through \<open>reflect\<close>. The embedding keeps
  that shape. Go memory is a heap of struct objects; a struct is a map from field index
  paths (the \<open>[]int\<close> of \<open>FieldByIndex\<close>) to field values; a panic is a result value.
  Go \<open>int64\<close>/\<open>uint64\<close> are 64-bit words (the conversion \<open>uint64(id)\<close> keeps the bits); Go
  \<open>int\<close> values that are only compared, masked or stored (\<open>bulk\<close>, \<open>fieldType\<close>, \<open>relDepth\<close>)
  are \<open>int\<close>.
\<close>

type_synonym int64 = "64 word"
type_synonym addr = nat
type_synonym fieldIndex = "nat list"

text \<open>The package's error variables, the two context errors, and any error of the driver.\<close>

datatype error =
    ErrTxDone | ErrMultiRows | ErrNoRows | ErrStmtClosed | ErrArgs | ErrNotImplement
  | ContextCanceled | DeadlineExceeded
  | DriverError string

text \<open>
  The values a panic carries, by the place that raises it: the \<open>panic(fmt.Errorf(...))\<close>
  calls of orm.go (the formatted message is dropped), \<open>panic(ErrMissPK)\<close>, the run-time
  panics of reflect, of a nil dereference and of a failed type assertion, and a panic
  raised by the caller's own code.
\<close>

datatype panicv =
    PanicNonPtr            \<comment> \<open>cannot use non-ptr model struct\<close>
  | PanicNotRegistered     \<comment> \<open>table not found, make sure it was registered\<close>
  | PanicNoField           \<comment> \<open>cannot find field for model\<close>
  | PanicMissPK            \<comment> \<open>panic(ErrMissPK)\<close>
  | PanicNotM2M            \<comment> \<open>is not a m2m field\<close>
  | PanicNotRel            \<comment> \<open>is not an available rel/reverse field\<close>
  | PanicNotRelField       \<comment> \<open>is not an available rel field\<close>
  | PanicNotReverseField   \<comment> \<open>is not an available reverse field\<close>
  | PanicTableNotExists    \<comment> \<open>table name not exists\<close>
  | PanicToInt64           \<comment> \<open>ToInt64 need numeric\<close>
  | PanicReflect
  | PanicNilDeref
  | PanicTypeAssert
  | PanicUser string

datatype 'a outcome = Ret 'a | Panic panicv

text \<open>
  A field value: a signed or unsigned integer of a bit width (reflect stores \<open>SetInt\<close> and
  \<open>SetUint\<close> truncated to the field's width), a pointer to a struct of a named type (nil
  is \<open>None\<close>), or a value of any other kind.
\<close>

datatype val =
    VInt nat int64
  | VUint nat int64
  | VPtr string "addr option"
  | VOpaque nat

type_synonym obj = "fieldIndex \<Rightarrow> val option"

text \<open>
  A \<open>reflect.Value\<close> of struct kind: the struct at an address (addressable, so its fields
  can be set), or a copy that is not addressable.
\<close>

datatype rvalue = Loc addr | Tmp obj

text \<open>
  An \<open>interface{}\<close> argument: nil, a string, a value of another predeclared type, a pointer
  to a struct of the type with the given full name, or a struct passed by value.
\<close>

datatype iface =
    INil
  | IStr string
  | IScalar
  | IPtr string "addr option"
  | IVal string obj

text \<open>The \<open>mds\<close> argument of InsertMulti after \<open>reflect.Indirect\<close>: not an array or slice
  (nil included), or a sequence of structs or of pointers to structs, with the full name of
  the struct type and the elements; a nil pointer element is \<open>None\<close>, the elements of an
  array passed by value are copies. A slice of interface type, whose elements could differ
  in type, is outside this model.\<close>

datatype seqval = NotSeq | Seq string "rvalue option list"

definition FieldByIndex :: "obj \<Rightarrow> fieldIndex \<Rightarrow> val outcome" where
  "FieldByIndex ob idx = (case ob idx of None \<Rightarrow> Panic PanicReflect | Some v \<Rightarrow> Ret v)"

fun val_Uint :: "val \<Rightarrow> int64 outcome" where
  "val_Uint (VUint n x) = Ret x"
| "val_Uint v = Panic PanicReflect"

fun val_Int :: "val \<Rightarrow> int64 outcome" where
  "val_Int (VInt n x) = Ret x"
| "val_Int v = Panic PanicReflect"

fun SetUint :: "bool \<Rightarrow> val \<Rightarrow> int64 \<Rightarrow> val outcome" where
  "SetUint canSet (VUint n old) x = (if canSet then Ret (VUint n (take_bit n x)) else Panic PanicReflect)"
| "SetUint canSet v x = Panic PanicReflect"

fun SetInt :: "bool \<Rightarrow> val \<Rightarrow> int64 \<Rightarrow> val outcome" where
  "SetInt canSet (VInt n old) x =
     (if canSet then Ret (VInt n (signed_take_bit (n - 1) x)) else Panic PanicReflect)"
| "SetInt canSet v x = Panic PanicReflect"

fun Interface :: "val \<Rightarrow> iface" where
  "Interface (VPtr t p) = IPtr t p"
| "Interface v = IScalar"

section \<open>Model descriptors\<close>

text \<open>
  \<open>modelInfo\<close> and \<open>fieldInfo\<close> are declared outside orm.go; these are the fields orm.go
  reads. \<open>mi.fields.pk\<close> is \<open>pk\<close>; a nil pointer is \<open>None\<close>.
\<close>

datatype modelInfo =
  ModelInfo (fullName: string) (pk: fieldInfo) (isThrough: bool)
and fieldInfo =
  FieldInfo (fi_name: string) (column: string) (fieldIndex: fieldIndex) (fieldType: int)
    (auto: bool) (rel: bool) (inModel: bool)
    (relModelInfo: "modelInfo option")
    (reverseFieldInfo: "fieldInfo option")
    (reverseFieldInfoM2M: "fieldInfo option")
    (fi_mi: "modelInfo option")

section \<open>Sessions, query sets and the world\<close>

datatype executor = ExecDB | ExecTx nat

record dbAlias =
  Name :: string
  Driver :: nat
  TZ :: nat

record ormBase =
  orm_alias :: dbAlias
  db :: executor

datatype ctx = Background | Ctx "error option"

type_synonym txOptions = "(nat \<times> bool) option"

text \<open>Modelled from the spec: the query set built by \<open>newQuerySet(o, mi)\<close>, which is not in
  orm.go: a builder scoped to one model descriptor and one session, accumulating a
  condition list, ordering columns, limit, offset and relation depth, all zero at first.\<close>

record querySet =
  qs_mi :: "modelInfo option"
  qs_cond :: "(string \<times> iface) list"
  limit :: int64
  offset :: int64
  relDepth :: int
  orders :: "string list"
  qs_orm :: ormBase

definition newQuerySet :: "ormBase \<Rightarrow> modelInfo option \<Rightarrow> querySet" where
  "newQuerySet orm mi =
     \<lparr>qs_mi = mi, qs_cond = [], limit = 0, offset = 0, relDepth = 0, orders = [], qs_orm = orm\<rparr>"

text \<open>The builders of \<open>newQueryM2M\<close> and \<open>newRawSet\<close>, kept as their arguments.\<close>

datatype queryM2M = QueryM2M iface ormBase modelInfo fieldInfo rvalue

datatype rawSet = RawSet ormBase string "iface list"

text \<open>The history of calls into the backend, one event per call with what it returned. It
  is bookkeeping of the model: every call site of orm.go appends its event.\<close>

datatype event =
    EvRead executor string bool "error option"
  | EvInsert executor string int64 "error option"
  | EvInsertOrUpdate executor string int64 "error option"
  | EvUpdate executor string int64 "error option"
  | EvDelete executor string int64 "error option"
  | EvInsertMulti executor string int int64 "error option"
  | EvOne querySet "error option"
  | EvAll querySet int64 "error option"
  | EvBeginTx ctx txOptions "error option"
  | EvCommit nat "error option"
  | EvRollback nat "error option"

datatype logEntry = RollbackFailed error bool | CommitFailed error bool

record 'db world =
  heap :: "addr \<Rightarrow> obj"
  nxt :: addr
  dbst :: 'db
  trace :: "event list"
  logs :: "logEntry list"

text \<open>
  The dialect backend \<open>DbBaser\<close> (an interface implemented outside orm.go). Each call
  receives the backend state, the executor \<open>o.db\<close>, the model descriptor and the contents
  of the record \<open>ind\<close>, and returns its results, the record as it leaves it, and the new
  backend state. InsertOrUpdate receives the alias; InsertMulti the elements of the slice.
\<close>

record 'db dbBaser =
  dbRead :: "'db \<Rightarrow> executor \<Rightarrow> modelInfo \<Rightarrow> obj \<Rightarrow> nat \<Rightarrow> string list \<Rightarrow> bool
               \<Rightarrow> error option \<times> obj \<times> 'db"
  dbInsert :: "'db \<Rightarrow> executor \<Rightarrow> modelInfo \<Rightarrow> obj \<Rightarrow> nat \<Rightarrow> int64 \<times> error option \<times> obj \<times> 'db"
  dbInsertOrUpdate :: "'db \<Rightarrow> executor \<Rightarrow> modelInfo \<Rightarrow> obj \<Rightarrow> dbAlias \<Rightarrow> string list
               \<Rightarrow> int64 \<times> error option \<times> obj \<times> 'db"
  dbUpdate :: "'db \<Rightarrow> executor \<Rightarrow> modelInfo \<Rightarrow> obj \<Rightarrow> nat \<Rightarrow> string list
               \<Rightarrow> int64 \<times> error option \<times> obj \<times> 'db"
  dbDelete :: "'db \<Rightarrow> executor \<Rightarrow> modelInfo \<Rightarrow> obj \<Rightarrow> nat \<Rightarrow> string list
               \<Rightarrow> int64 \<times> error option \<times> obj \<times> 'db"
  dbInsertMulti :: "'db \<Rightarrow> executor \<Rightarrow> modelInfo \<Rightarrow> obj option list \<Rightarrow> int \<Rightarrow> nat
               \<Rightarrow> int64 \<times> error option \<times> obj option list \<times> 'db"

text \<open>An argument of the variadic \<open>args ...interface{}\<close> of LoadRelated.\<close>

datatype arg = ABool bool | AInt int | AString string | AOther nat

text \<open>
  What orm.go uses and does not declare: the field type constants, the expression
  separator, the model cache, the table naming strategy, \<open>fields.GetByAny\<close>,
  \<open>getExistPk\<close>, \<open>ToInt64\<close>, the zero value \<open>reflect.New\<close> allocates for a type, the table
  \<open>dbBasers\<close> from which an alias takes its backend, the terminal calls \<open>One\<close> and \<open>All\<close> of
  a query set, and \<open>BeginTx\<close>, \<open>Commit\<close> and \<open>Rollback\<close> of the driver. They are parameters.
\<close>

record 'db pkg =
  IsPositiveIntegerField :: int
  RelForeignKey :: int
  RelOneToOne :: int
  RelManyToMany :: int
  RelReverseOne :: int
  RelReverseMany :: int
  ExprSep :: string
  getByFullName :: "string \<Rightarrow> modelInfo option"
  getByTable :: "string \<Rightarrow> modelInfo option"
  nameStrategy :: "string \<Rightarrow> string"
  GetByAny :: "modelInfo \<Rightarrow> string \<Rightarrow> fieldInfo option"
  getExistPk :: "modelInfo \<Rightarrow> obj \<Rightarrow> bool"
  ToInt64 :: "arg \<Rightarrow> int64 outcome"
  zeroValue :: "string \<Rightarrow> obj"
  dbBasers :: "nat \<Rightarrow> 'db dbBaser"
  qsOne :: "'db \<Rightarrow> querySet \<Rightarrow> obj \<Rightarrow> error option \<times> obj \<times> 'db"
  qsAll :: "'db \<Rightarrow> querySet \<Rightarrow> val \<Rightarrow> int64 \<times> error option \<times> val \<times> 'db"
  BeginTx :: "'db \<Rightarrow> ctx \<Rightarrow> txOptions \<Rightarrow> nat \<times> error option \<times> 'db"
  txCommit :: "'db \<Rightarrow> nat \<Rightarrow> error option \<times> 'db"
  txRollback :: "'db \<Rightarrow> nat \<Rightarrow> error option \<times> 'db"

definition DbBaser :: "'db pkg \<Rightarrow> ormBase \<Rightarrow> 'db dbBaser" where
  "DbBaser pkg orm = dbBasers pkg (Driver (orm_alias orm))"

text \<open>Reading the struct behind a reflect value, and writing it back: a write to a copy
  does not reach the heap.\<close>

fun load :: "'db world \<Rightarrow> rvalue \<Rightarrow> obj" where
  "load w (Loc a) = heap w a"
| "load w (Tmp ob) = ob"

fun store :: "rvalue \<Rightarrow> obj \<Rightarrow> 'db world \<Rightarrow> 'db world" where
  "store (Loc a) ob w = w\<lparr>heap := (heap w)(a := ob)\<rparr>"
| "store (Tmp old) ob w = w"

fun canSet :: "rvalue \<Rightarrow> bool" where
  "canSet (Loc a) = True"
| "canSet (Tmp ob) = False"

definition emit :: "event \<Rightarrow> 'db world \<Rightarrow> 'db world" where
  "emit ev w = w\<lparr>trace := trace w @ [ev]\<rparr>"

section \<open>orm.go\<close>

subsection \<open>getMiInd, getFieldInfo\<close>

text \<open>
  \<open>ind.Type()\<close> panics on the zero Value that \<open>reflect.Indirect\<close> gives for a nil interface
  and for a nil pointer; then comes the pointer check, then the lookup by full name. No
  predeclared type is registered.
\<close>

definition lookupModel :: "'db pkg \<Rightarrow> string \<Rightarrow> rvalue \<Rightarrow> (modelInfo \<times> rvalue) outcome" where
  "lookupModel pkg name ind =
     (case getByFullName pkg name of
        Some mi \<Rightarrow> Ret (mi, ind)
      | None \<Rightarrow> Panic PanicNotRegistered)"

fun getMiInd :: "'db pkg \<Rightarrow> iface \<Rightarrow> bool \<Rightarrow> (modelInfo \<times> rvalue) outcome" where
  "getMiInd pkg INil needPtr = Panic PanicReflect"
| "getMiInd pkg (IPtr t None) needPtr = Panic PanicReflect"
| "getMiInd pkg (IPtr t (Some a)) needPtr = lookupModel pkg t (Loc a)"
| "getMiInd pkg (IVal t ob) needPtr =
     (if needPtr then Panic PanicNonPtr else lookupModel pkg t (Tmp ob))"
| "getMiInd pkg (IStr s) needPtr =
     (if needPtr then Panic PanicNonPtr else Panic PanicNotRegistered)"
| "getMiInd pkg IScalar needPtr =
     (if needPtr then Panic PanicNonPtr else Panic PanicNotRegistered)"

definition getFieldInfo :: "'db pkg \<Rightarrow> modelInfo \<Rightarrow> string \<Rightarrow> fieldInfo outcome" where
  "getFieldInfo pkg mi name =
     (case GetByAny pkg mi name of None \<Rightarrow> Panic PanicNoField | Some fi \<Rightarrow> Ret fi)"

subsection \<open>setPk\<close>

definition setField :: "rvalue \<Rightarrow> fieldIndex \<Rightarrow> val \<Rightarrow> 'db world \<Rightarrow> 'db world" where
  "setField ind idx v w = store ind ((load w ind)(idx \<mapsto> v)) w"

definition setPk :: "'db pkg \<Rightarrow> modelInfo \<Rightarrow> rvalue \<Rightarrow> int64 \<Rightarrow> 'db world \<Rightarrow> unit outcome \<times> 'db world" where
  "setPk pkg mi ind idv w =
     (if auto (pk mi) then
        (case FieldByIndex (load w ind) (fieldIndex (pk mi)) of
           Panic p \<Rightarrow> (Panic p, w)
         | Ret f \<Rightarrow>
             (case (if fieldType (pk mi) AND IsPositiveIntegerField pkg > 0
                    then SetUint (canSet ind) f idv
                    else SetInt (canSet ind) f idv) of
                Panic p \<Rightarrow> (Panic p, w)
              | Ret v \<Rightarrow> (Ret (), setField ind (fieldIndex (pk mi)) v w)))
      else (Ret (), w))"

subsection \<open>Read, ReadForUpdate\<close>

definition ReadWithCtx ::
  "'db pkg \<Rightarrow> ormBase \<Rightarrow> ctx \<Rightarrow> iface \<Rightarrow> string list \<Rightarrow> 'db world \<Rightarrow> error option outcome \<times> 'db world" where
  "ReadWithCtx pkg orm c md cols w =
     (case getMiInd pkg md True of
        Panic p \<Rightarrow> (Panic p, w)
      | Ret (mi, ind) \<Rightarrow>
          (case dbRead (DbBaser pkg orm) (dbst w) (db orm) mi (load w ind) (TZ (orm_alias orm)) cols False of
             (err, ob, d) \<Rightarrow>
               (Ret err, emit (EvRead (db orm) (fullName mi) False err) (store ind ob (w\<lparr>dbst := d\<rparr>)))))"

definition Read :: "'db pkg \<Rightarrow> ormBase \<Rightarrow> iface \<Rightarrow> string list \<Rightarrow> 'db world \<Rightarrow> error option outcome \<times> 'db world" where
  "Read pkg orm md cols w = ReadWithCtx pkg orm Background md cols w"

definition ReadForUpdateWithCtx ::
  "'db pkg \<Rightarrow> ormBase \<Rightarrow> ctx \<Rightarrow> iface \<Rightarrow> string list \<Rightarrow> 'db world \<Rightarrow> error option outcome \<times> 'db world" where
  "ReadForUpdateWithCtx pkg orm c md cols w =
     (case getMiInd pkg md True of
        Panic p \<Rightarrow> (Panic p, w)
      | Ret (mi, ind) \<Rightarrow>
          (case dbRead (DbBaser pkg orm) (dbst w) (db orm) mi (load w ind) (TZ (orm_alias orm)) cols True of
             (err, ob, d) \<Rightarrow>
               (Ret err, emit (EvRead (db orm) (fullName mi) True err) (store ind ob (w\<lparr>dbst := d\<rparr>)))))"

definition ReadForUpdate :: "'db pkg \<Rightarrow> ormBase \<Rightarrow> iface \<Rightarrow> string list \<Rightarrow> 'db world \<Rightarrow> error option outcome \<times> 'db world" where
  "ReadForUpdate pkg orm md cols w = ReadForUpdateWithCtx pkg orm Background md cols w"

subsection \<open>Insert, InsertOrUpdate\<close>

definition InsertWithCtx ::
  "'db pkg \<Rightarrow> ormBase \<Rightarrow> ctx \<Rightarrow> iface \<Rightarrow> 'db world \<Rightarrow> (int64 \<times> error option) outcome \<times> 'db world" where
  "InsertWithCtx pkg orm c md w =
     (case getMiInd pkg md True of
        Panic p \<Rightarrow> (Panic p, w)
      | Ret (mi, ind) \<Rightarrow>
          (case dbInsert (DbBaser pkg orm) (dbst w) (db orm) mi (load w ind) (TZ (orm_alias orm)) of
             (idv, err, ob, d) \<Rightarrow>
               (let w1 = emit (EvInsert (db orm) (fullName mi) idv err) (store ind ob (w\<lparr>dbst := d\<rparr>))
                in if err \<noteq> None then (Ret (idv, err), w1)
                   else (case setPk pkg mi ind idv w1 of
                           (Panic p, w2) \<Rightarrow> (Panic p, w2)
                         | (Ret u, w2) \<Rightarrow> (Ret (idv, None), w2)))))"

definition Insert :: "'db pkg \<Rightarrow> ormBase \<Rightarrow> iface \<Rightarrow> 'db world \<Rightarrow> (int64 \<times> error option) outcome \<times> 'db world" where
  "Insert pkg orm md w = InsertWithCtx pkg orm Background md w"

definition InsertOrUpdateWithCtx ::
  "'db pkg \<Rightarrow> ormBase \<Rightarrow> ctx \<Rightarrow> iface \<Rightarrow> string list \<Rightarrow> 'db world \<Rightarrow> (int64 \<times> error option) outcome \<times> 'db world" where
  "InsertOrUpdateWithCtx pkg orm c md colConflitAndArgs w =
     (case getMiInd pkg md True of
        Panic p \<Rightarrow> (Panic p, w)
      | Ret (mi, ind) \<Rightarrow>
          (case dbInsertOrUpdate (DbBaser pkg orm) (dbst w) (db orm) mi (load w ind) (orm_alias orm) colConflitAndArgs of
             (idv, err, ob, d) \<Rightarrow>
               (let w1 = emit (EvInsertOrUpdate (db orm) (fullName mi) idv err) (store ind ob (w\<lparr>dbst := d\<rparr>))
                in if err \<noteq> None then (Ret (idv, err), w1)
                   else (case setPk pkg mi ind idv w1 of
                           (Panic p, w2) \<Rightarrow> (Panic p, w2)
                         | (Ret u, w2) \<Rightarrow> (Ret (idv, None), w2)))))"

definition InsertOrUpdate :: "'db pkg \<Rightarrow> ormBase \<Rightarrow> iface \<Rightarrow> string list \<Rightarrow> 'db world \<Rightarrow> (int64 \<times> error option) outcome \<times> 'db world" where
  "InsertOrUpdate pkg orm md colConflictAndArgs w =
     InsertOrUpdateWithCtx pkg orm Background md colConflictAndArgs w"

subsection \<open>ReadOrCreate\<close>

text \<open>
  When the row is found and the primary key is a relation field (and not of an unsigned
  integer type), the function calls itself on the related record. Nothing bounds that
  chain of records, so the recursion runs on fuel: \<open>None\<close> is a call that has not returned
  within \<open>n\<close> nested calls.
\<close>

fun ReadOrCreateWithCtx ::
  "nat \<Rightarrow> 'db pkg \<Rightarrow> ormBase \<Rightarrow> ctx \<Rightarrow> iface \<Rightarrow> string \<Rightarrow> string list \<Rightarrow> 'db world
     \<Rightarrow> ((bool \<times> int64 \<times> error option) outcome \<times> 'db world) option" where
  "ReadOrCreateWithCtx 0 pkg orm c md col1 cols w = None"
| "ReadOrCreateWithCtx (Suc n) pkg orm c md col1 cols w =
     (case getMiInd pkg md True of
        Panic p \<Rightarrow> Some (Panic p, w)
      | Ret (mi, ind) \<Rightarrow>
          (case dbRead (DbBaser pkg orm) (dbst w) (db orm) mi (load w ind) (TZ (orm_alias orm))
                  (col1 # cols) False of
             (err, ob, d) \<Rightarrow>
               (let w1 = emit (EvRead (db orm) (fullName mi) False err) (store ind ob (w\<lparr>dbst := d\<rparr>))
                in if err = Some ErrNoRows then
                     (case InsertWithCtx pkg orm c md w1 of
                        (Panic p, w2) \<Rightarrow> Some (Panic p, w2)
                      | (Ret (idv, err2), w2) \<Rightarrow> Some (Ret (err2 = None, idv, err2), w2))
                   else
                     (case FieldByIndex (load w1 ind) (fieldIndex (pk mi)) of
                        Panic p \<Rightarrow> Some (Panic p, w1)
                      | Ret vid \<Rightarrow>
                          if fieldType (pk mi) AND IsPositiveIntegerField pkg > 0 then
                            (case val_Uint vid of
                               Panic p \<Rightarrow> Some (Panic p, w1)
                             | Ret u \<Rightarrow> Some (Ret (False, u, err), w1))
                          else if rel (pk mi) then
                            (case relModelInfo (pk mi) of
                               None \<Rightarrow> Some (Panic PanicNilDeref, w1)
                             | Some rmi \<Rightarrow>
                                 ReadOrCreateWithCtx n pkg orm c (Interface vid) (fi_name (pk rmi)) [] w1)
                          else
                            (case val_Int vid of
                               Panic p \<Rightarrow> Some (Panic p, w1)
                             | Ret i \<Rightarrow> Some (Ret (False, i, err), w1))))))"

definition ReadOrCreate ::
  "nat \<Rightarrow> 'db pkg \<Rightarrow> ormBase \<Rightarrow> iface \<Rightarrow> string \<Rightarrow> string list \<Rightarrow> 'db world
     \<Rightarrow> ((bool \<times> int64 \<times> error option) outcome \<times> 'db world) option" where
  "ReadOrCreate n pkg orm md col1 cols w = ReadOrCreateWithCtx n pkg orm Background md col1 cols w"

subsection \<open>InsertMulti\<close>

text \<open>The loop of the one-by-one mode over the elements left, with the count so far.
  \<open>ind.Interface()\<close> panics on the zero Value of a nil pointer element; otherwise it is a
  copy of the element struct.\<close>

fun insertEach ::
  "'db pkg \<Rightarrow> ormBase \<Rightarrow> string \<Rightarrow> rvalue option list \<Rightarrow> int64 \<Rightarrow> 'db world
     \<Rightarrow> (int64 \<times> error option) outcome \<times> 'db world" where
  "insertEach pkg orm t [] cnt w = (Ret (cnt, None), w)"
| "insertEach pkg orm t (None # es) cnt w = (Panic PanicReflect, w)"
| "insertEach pkg orm t (Some ind # es) cnt w =
     (case getMiInd pkg (IVal t (load w ind)) False of
        Panic p \<Rightarrow> (Panic p, w)
      | Ret (mi, cp) \<Rightarrow>
          (case dbInsert (DbBaser pkg orm) (dbst w) (db orm) mi (load w ind) (TZ (orm_alias orm)) of
             (idv, err, ob, d) \<Rightarrow>
               (let w1 = emit (EvInsert (db orm) (fullName mi) idv err) (store ind ob (w\<lparr>dbst := d\<rparr>))
                in if err \<noteq> None then (Ret (cnt, err), w1)
                   else (case setPk pkg mi ind idv w1 of
                           (Panic p, w2) \<Rightarrow> (Panic p, w2)
                         | (Ret u, w2) \<Rightarrow> insertEach pkg orm t es (cnt + 1) w2))))"

text \<open>\<open>sind.Index(0).Interface()\<close> in the batched mode: the element itself, which is a
  pointer in a slice of pointers and a struct otherwise.\<close>

fun indexInterface :: "'db world \<Rightarrow> string \<Rightarrow> rvalue option \<Rightarrow> iface" where
  "indexInterface w t None = IPtr t None"
| "indexInterface w t (Some (Loc a)) = IPtr t (Some a)"
| "indexInterface w t (Some (Tmp ob)) = IVal t ob"

fun storeAll :: "rvalue option list \<Rightarrow> obj option list \<Rightarrow> 'db world \<Rightarrow> 'db world" where
  "storeAll (Some r # rs) (Some ob # obs) w = storeAll rs obs (store r ob w)"
| "storeAll (r # rs) (ob # obs) w = storeAll rs obs w"
| "storeAll rs obs w = w"

definition InsertMultiWithCtx ::
  "'db pkg \<Rightarrow> ormBase \<Rightarrow> ctx \<Rightarrow> int \<Rightarrow> seqval \<Rightarrow> 'db world \<Rightarrow> (int64 \<times> error option) outcome \<times> 'db world" where
  "InsertMultiWithCtx pkg orm c bulk mds w =
     (case mds of
        NotSeq \<Rightarrow> (Ret (0, Some ErrArgs), w)
      | Seq t [] \<Rightarrow> (Ret (0, Some ErrArgs), w)
      | Seq t (e # es) \<Rightarrow>
          if bulk \<le> 1 then insertEach pkg orm t (e # es) 0 w
          else
            (case getMiInd pkg (indexInterface w t e) False of
               Panic p \<Rightarrow> (Panic p, w)
             | Ret (mi, cp) \<Rightarrow>
                 (case dbInsertMulti (DbBaser pkg orm) (dbst w) (db orm) mi
                         (map (map_option (load w)) (e # es)) bulk (TZ (orm_alias orm)) of
                    (cnt, err, obs, d) \<Rightarrow>
                      (Ret (cnt, err),
                       emit (EvInsertMulti (db orm) (fullName mi) bulk cnt err)
                         (storeAll (e # es) obs (w\<lparr>dbst := d\<rparr>))))))"

definition InsertMulti ::
  "'db pkg \<Rightarrow> ormBase \<Rightarrow> int \<Rightarrow> seqval \<Rightarrow> 'db world \<Rightarrow> (int64 \<times> error option) outcome \<times> 'db world" where
  "InsertMulti pkg orm bulk mds w = InsertMultiWithCtx pkg orm Background bulk mds w"

subsection \<open>Update, Delete\<close>

definition UpdateWithCtx ::
  "'db pkg \<Rightarrow> ormBase \<Rightarrow> ctx \<Rightarrow> iface \<Rightarrow> string list \<Rightarrow> 'db world \<Rightarrow> (int64 \<times> error option) outcome \<times> 'db world" where
  "UpdateWithCtx pkg orm c md cols w =
     (case getMiInd pkg md True of
        Panic p \<Rightarrow> (Panic p, w)
      | Ret (mi, ind) \<Rightarrow>
          (case dbUpdate (DbBaser pkg orm) (dbst w) (db orm) mi (load w ind) (TZ (orm_alias orm)) cols of
             (num, err, ob, d) \<Rightarrow>
               (Ret (num, err),
                emit (EvUpdate (db orm) (fullName mi) num err) (store ind ob (w\<lparr>dbst := d\<rparr>)))))"

definition Update ::
  "'db pkg \<Rightarrow> ormBase \<Rightarrow> iface \<Rightarrow> string list \<Rightarrow> 'db world \<Rightarrow> (int64 \<times> error option) outcome \<times> 'db world" where
  "Update pkg orm md cols w = UpdateWithCtx pkg orm Background md cols w"

text \<open>\<open>num > 0\<close> compares signed 64-bit integers.\<close>

definition DeleteWithCtx ::
  "'db pkg \<Rightarrow> ormBase \<Rightarrow> ctx \<Rightarrow> iface \<Rightarrow> string list \<Rightarrow> 'db world \<Rightarrow> (int64 \<times> error option) outcome \<times> 'db world" where
  "DeleteWithCtx pkg orm c md cols w =
     (case getMiInd pkg md True of
        Panic p \<Rightarrow> (Panic p, w)
      | Ret (mi, ind) \<Rightarrow>
          (case dbDelete (DbBaser pkg orm) (dbst w) (db orm) mi (load w ind) (TZ (orm_alias orm)) cols of
             (num, err, ob, d) \<Rightarrow>
               (let w1 = emit (EvDelete (db orm) (fullName mi) num err) (store ind ob (w\<lparr>dbst := d\<rparr>))
                in if err \<noteq> None then (Ret (num, err), w1)
                   else if 0 < sint num then
                     (case setPk pkg mi ind 0 w1 of
                        (Panic p, w2) \<Rightarrow> (Panic p, w2)
                      | (Ret u, w2) \<Rightarrow> (Ret (num, None), w2))
                   else (Ret (num, None), w1))))"

definition Delete ::
  "'db pkg \<Rightarrow> ormBase \<Rightarrow> iface \<Rightarrow> string list \<Rightarrow> 'db world \<Rightarrow> (int64 \<times> error option) outcome \<times> 'db world" where
  "Delete pkg orm md cols w = DeleteWithCtx pkg orm Background md cols w"

subsection \<open>QueryM2M\<close>

text \<open>The second case of the switch dereferences \<open>fi.reverseFieldInfo.mi\<close> only when the
  field type is \<open>RelReverseMany\<close>.\<close>

definition reverseIsThrough :: "fieldInfo \<Rightarrow> bool outcome" where
  "reverseIsThrough fi =
     (case reverseFieldInfo fi of
        None \<Rightarrow> Panic PanicNilDeref
      | Some rfi \<Rightarrow> (case fi_mi rfi of None \<Rightarrow> Panic PanicNilDeref | Some rmi \<Rightarrow> Ret (isThrough rmi)))"

definition QueryM2MWithCtx :: "'db pkg \<Rightarrow> ormBase \<Rightarrow> ctx \<Rightarrow> iface \<Rightarrow> string \<Rightarrow> queryM2M outcome" where
  "QueryM2MWithCtx pkg orm c md name =
     (case getMiInd pkg md True of
        Panic p \<Rightarrow> Panic p
      | Ret (mi, ind) \<Rightarrow>
          (case getFieldInfo pkg mi name of
             Panic p \<Rightarrow> Panic p
           | Ret fi \<Rightarrow>
               if fieldType fi = RelManyToMany pkg then Ret (QueryM2M md orm mi fi ind)
               else if fieldType fi = RelReverseMany pkg then
                 (case reverseIsThrough fi of
                    Panic p \<Rightarrow> Panic p
                  | Ret through \<Rightarrow>
                      if through then Ret (QueryM2M md orm mi fi ind) else Panic PanicNotM2M)
               else Panic PanicNotM2M))"

definition QueryM2M :: "'db pkg \<Rightarrow> ormBase \<Rightarrow> iface \<Rightarrow> string \<Rightarrow> queryM2M outcome" where
  "QueryM2M pkg orm md name = QueryM2MWithCtx pkg orm Background md name"

subsection \<open>getReverseQs, getRelQs, queryRelated\<close>

text \<open>\<open>NewCondition().And(expr, md)\<close> is the one-element condition list.\<close>

definition getReverseQs :: "'db pkg \<Rightarrow> ormBase \<Rightarrow> iface \<Rightarrow> modelInfo \<Rightarrow> fieldInfo \<Rightarrow> querySet outcome" where
  "getReverseQs pkg orm md mi fi =
     (if fieldType fi = RelReverseOne pkg \<or> fieldType fi = RelReverseMany pkg then
        (case (if fieldType fi = RelReverseMany pkg then reverseIsThrough fi else Ret False) of
           Panic p \<Rightarrow> Panic p
         | Ret through \<Rightarrow>
             if through then
               (case reverseFieldInfoM2M fi of
                  None \<Rightarrow> Panic PanicNilDeref
                | Some m2m \<Rightarrow>
                    (case reverseFieldInfo fi of
                       None \<Rightarrow> Panic PanicNilDeref
                     | Some rfi \<Rightarrow>
                         Ret ((newQuerySet orm (relModelInfo fi))
                                \<lparr>qs_cond := [(column m2m @ ExprSep pkg @ column rfi, md)]\<rparr>)))
             else
               (case reverseFieldInfo fi of
                  None \<Rightarrow> Panic PanicNilDeref
                | Some rfi \<Rightarrow>
                    Ret ((newQuerySet orm (fi_mi rfi))\<lparr>qs_cond := [(column rfi, md)]\<rparr>)))
      else Panic PanicNotReverseField)"

definition getRelQs :: "'db pkg \<Rightarrow> ormBase \<Rightarrow> iface \<Rightarrow> modelInfo \<Rightarrow> fieldInfo \<Rightarrow> querySet outcome" where
  "getRelQs pkg orm md mi fi =
     (if fieldType fi = RelOneToOne pkg \<or> fieldType fi = RelForeignKey pkg
         \<or> fieldType fi = RelManyToMany pkg then
        (if fieldType fi = RelManyToMany pkg then
           (case reverseFieldInfoM2M fi of
              None \<Rightarrow> Panic PanicNilDeref
            | Some m2m \<Rightarrow>
                (case reverseFieldInfo fi of
                   None \<Rightarrow> Panic PanicNilDeref
                 | Some rfi \<Rightarrow>
                     Ret ((newQuerySet orm (relModelInfo fi))
                            \<lparr>qs_cond := [(column m2m @ ExprSep pkg @ column rfi, md)]\<rparr>)))
         else
           (case reverseFieldInfo fi of
              None \<Rightarrow> Panic PanicNilDeref
            | Some rfi \<Rightarrow>
                Ret ((newQuerySet orm (relModelInfo fi))\<lparr>qs_cond := [(column rfi, md)]\<rparr>)))
      else Panic PanicNotRelField)"

definition queryRelated ::
  "'db pkg \<Rightarrow> ormBase \<Rightarrow> 'db world \<Rightarrow> iface \<Rightarrow> string
     \<Rightarrow> (modelInfo \<times> fieldInfo \<times> rvalue \<times> querySet) outcome" where
  "queryRelated pkg orm w md name =
     (case getMiInd pkg md True of
        Panic p \<Rightarrow> Panic p
      | Ret (mi, ind) \<Rightarrow>
          (case getFieldInfo pkg mi name of
             Panic p \<Rightarrow> Panic p
           | Ret fi \<Rightarrow>
               if \<not> getExistPk pkg mi (load w ind) then Panic PanicMissPK
               else
                 (case (if fieldType fi = RelOneToOne pkg \<or> fieldType fi = RelForeignKey pkg
                           \<or> fieldType fi = RelManyToMany pkg then
                          (if \<not> inModel fi then Panic PanicNotRel else getRelQs pkg orm md mi fi)
                        else if fieldType fi = RelReverseOne pkg \<or> fieldType fi = RelReverseMany pkg then
                          (if \<not> inModel fi then Panic PanicNotRel else getReverseQs pkg orm md mi fi)
                        else Panic PanicNotRel) of
                    Panic p \<Rightarrow> Panic p
                  | Ret qs \<Rightarrow> Ret (mi, fi, ind, qs))))"

definition QueryRelatedWithCtx :: "'db pkg \<Rightarrow> ormBase \<Rightarrow> ctx \<Rightarrow> 'db world \<Rightarrow> iface \<Rightarrow> string \<Rightarrow> querySet outcome" where
  "QueryRelatedWithCtx pkg orm c w md name =
     (case queryRelated pkg orm w md name of
        Panic p \<Rightarrow> Panic p
      | Ret (mi, fi, ind, qs) \<Rightarrow> Ret qs)"

definition QueryRelated :: "'db pkg \<Rightarrow> ormBase \<Rightarrow> 'db world \<Rightarrow> iface \<Rightarrow> string \<Rightarrow> querySet outcome" where
  "QueryRelated pkg orm w md name = QueryRelatedWithCtx pkg orm Background w md name"

subsection \<open>LoadRelated\<close>

definition DefaultRelsDepth :: int where
  "DefaultRelsDepth = 2"

text \<open>The loop over \<open>args\<close>, from index \<open>i\<close>, on the variables
  \<open>(relDepth, limit, offset, order)\<close>.\<close>

fun loadRelatedArgs ::
  "'db pkg \<Rightarrow> nat \<Rightarrow> arg list \<Rightarrow> int \<times> int64 \<times> int64 \<times> string \<Rightarrow> (int \<times> int64 \<times> int64 \<times> string) outcome" where
  "loadRelatedArgs pkg i [] st = Ret st"
| "loadRelatedArgs pkg i (a # as) (rd, lim, off, ordr) =
     (if i = 0 then
        loadRelatedArgs pkg (Suc i) as
          ((case a of ABool v \<Rightarrow> (if v then DefaultRelsDepth else rd) | AInt v \<Rightarrow> v | _ \<Rightarrow> rd),
           lim, off, ordr)
      else if i = 1 then
        (case ToInt64 pkg a of
           Panic p \<Rightarrow> Panic p
         | Ret v \<Rightarrow> loadRelatedArgs pkg (Suc i) as (rd, v, off, ordr))
      else if i = 2 then
        (case ToInt64 pkg a of
           Panic p \<Rightarrow> Panic p
         | Ret v \<Rightarrow> loadRelatedArgs pkg (Suc i) as (rd, lim, v, ordr))
      else if i = 3 then
        loadRelatedArgs pkg (Suc i) as (rd, lim, off, (case a of AString s \<Rightarrow> s | _ \<Rightarrow> []))
      else loadRelatedArgs pkg (Suc i) as (rd, lim, off, ordr))"

definition isToOne :: "'db pkg \<Rightarrow> fieldInfo \<Rightarrow> bool" where
  "isToOne pkg fi =
     (fieldType fi = RelOneToOne pkg \<or> fieldType fi = RelForeignKey pkg
        \<or> fieldType fi = RelReverseOne pkg)"

text \<open>
  In the to-one case \<open>reflect.New(find.Type().Elem())\<close> allocates a zero struct of the
  pointed-to type at the next free address; \<open>Elem\<close> panics for a field that is no
  pointer (fields of container kinds are \<open>VOpaque\<close> here). \<open>find.Set\<close> and \<open>find.Addr\<close>
  need an addressable record.
\<close>

definition LoadRelatedWithCtx ::
  "'db pkg \<Rightarrow> ormBase \<Rightarrow> ctx \<Rightarrow> iface \<Rightarrow> string \<Rightarrow> arg list \<Rightarrow> 'db world
     \<Rightarrow> (int64 \<times> error option) outcome \<times> 'db world" where
  "LoadRelatedWithCtx pkg orm c md name args w =
     (case queryRelated pkg orm w md name of
        Panic p \<Rightarrow> (Panic p, w)
      | Ret (mi, fi, ind, qs0) \<Rightarrow>
          (case loadRelatedArgs pkg 0 args (0, 0, 0, []) of
             Panic p \<Rightarrow> (Panic p, w)
           | Ret (rd, lim, off, ordr) \<Rightarrow>
               (let qs1 = qs0\<lparr>limit := (if isToOne pkg fi then 1 else lim),
                              offset := (if isToOne pkg fi then 0 else off),
                              relDepth := rd\<rparr>;
                    qs = (if length ordr > 0 then qs1\<lparr>orders := [ordr]\<rparr> else qs1)
                in case FieldByIndex (load w ind) (fieldIndex fi) of
                     Panic p \<Rightarrow> (Panic p, w)
                   | Ret fld \<Rightarrow>
                       if isToOne pkg fi then
                         (case fld of
                            VPtr t p \<Rightarrow>
                              (let a = nxt w;
                                   w1 = w\<lparr>heap := (heap w)(a := zeroValue pkg t), nxt := Suc a\<rparr>
                               in case qsOne pkg (dbst w1) qs (heap w1 a) of
                                    (err, ob, d) \<Rightarrow>
                                      (let w2 = emit (EvOne qs err) (w1\<lparr>heap := (heap w1)(a := ob), dbst := d\<rparr>)
                                       in if err = None then
                                            (if canSet ind
                                             then (Ret (1, None), setField ind (fieldIndex fi) (VPtr t (Some a)) w2)
                                             else (Panic PanicReflect, w2))
                                          else (Ret (0, err), w2)))
                          | _ \<Rightarrow> (Panic PanicReflect, w))
                       else if canSet ind then
                         (case qsAll pkg (dbst w) qs fld of
                            (nums, err, v, d) \<Rightarrow>
                              (Ret (nums, err),
                               emit (EvAll qs nums err) (setField ind (fieldIndex fi) v (w\<lparr>dbst := d\<rparr>))))
                       else (Panic PanicReflect, w))))"

definition LoadRelated ::
  "'db pkg \<Rightarrow> ormBase \<Rightarrow> iface \<Rightarrow> string \<Rightarrow> arg list \<Rightarrow> 'db world
     \<Rightarrow> (int64 \<times> error option) outcome \<times> 'db world" where
  "LoadRelated pkg orm md name args w = LoadRelatedWithCtx pkg orm Background md name args w"

subsection \<open>QueryTable, Raw\<close>

text \<open>\<open>indirectType(reflect.TypeOf(x))\<close> dereferences the nil type of a nil interface; a
  typed nil pointer has a type.\<close>

fun QueryTableWithCtx :: "'db pkg \<Rightarrow> ormBase \<Rightarrow> ctx \<Rightarrow> iface \<Rightarrow> querySet outcome" where
  "QueryTableWithCtx pkg orm c (IStr table) =
     (case getByTable pkg (nameStrategy pkg table) of
        Some mi \<Rightarrow> Ret (newQuerySet orm (Some mi))
      | None \<Rightarrow> Panic PanicTableNotExists)"
| "QueryTableWithCtx pkg orm c INil = Panic PanicNilDeref"
| "QueryTableWithCtx pkg orm c IScalar = Panic PanicTableNotExists"
| "QueryTableWithCtx pkg orm c (IPtr t p) =
     (case getByFullName pkg t of
        Some mi \<Rightarrow> Ret (newQuerySet orm (Some mi))
      | None \<Rightarrow> Panic PanicTableNotExists)"
| "QueryTableWithCtx pkg orm c (IVal t ob) =
     (case getByFullName pkg t of
        Some mi \<Rightarrow> Ret (newQuerySet orm (Some mi))
      | None \<Rightarrow> Panic PanicTableNotExists)"

definition QueryTable :: "'db pkg \<Rightarrow> ormBase \<Rightarrow> iface \<Rightarrow> querySet outcome" where
  "QueryTable pkg orm ptrStructOrTableName = QueryTableWithCtx pkg orm Background ptrStructOrTableName"

definition RawWithCtx :: "ormBase \<Rightarrow> ctx \<Rightarrow> string \<Rightarrow> iface list \<Rightarrow> rawSet" where
  "RawWithCtx orm c query args = RawSet orm query args"

definition Raw :: "ormBase \<Rightarrow> string \<Rightarrow> iface list \<Rightarrow> rawSet" where
  "Raw orm query args = RawWithCtx orm Background query args"

subsection \<open>Begin, Commit, Rollback, DoTx\<close>

text \<open>\<open>o.db.(txer)\<close> holds for the pooled connection and fails for a transaction;
  \<open>t.db.(txEnder)\<close> is the other way round. The transaction session keeps the alias and
  takes the transaction as its executor.\<close>

definition BeginWithCtxAndOpts ::
  "'db pkg \<Rightarrow> ormBase \<Rightarrow> ctx \<Rightarrow> txOptions \<Rightarrow> 'db world \<Rightarrow> (error + ormBase) outcome \<times> 'db world" where
  "BeginWithCtxAndOpts pkg orm c opts w =
     (case db orm of
        ExecTx h \<Rightarrow> (Panic PanicTypeAssert, w)
      | ExecDB \<Rightarrow>
          (case BeginTx pkg (dbst w) c opts of
             (h, err, d) \<Rightarrow>
               (let w1 = emit (EvBeginTx c opts err) (w\<lparr>dbst := d\<rparr>)
                in case err of
                     Some e \<Rightarrow> (Ret (Inl e), w1)
                   | None \<Rightarrow> (Ret (Inr \<lparr>orm_alias = orm_alias orm, db = ExecTx h\<rparr>), w1))))"

definition BeginWithCtx :: "'db pkg \<Rightarrow> ormBase \<Rightarrow> ctx \<Rightarrow> 'db world \<Rightarrow> (error + ormBase) outcome \<times> 'db world" where
  "BeginWithCtx pkg orm c w = BeginWithCtxAndOpts pkg orm c None w"

definition Begin :: "'db pkg \<Rightarrow> ormBase \<Rightarrow> 'db world \<Rightarrow> (error + ormBase) outcome \<times> 'db world" where
  "Begin pkg orm w = BeginWithCtx pkg orm Background w"

definition BeginWithOpts :: "'db pkg \<Rightarrow> ormBase \<Rightarrow> txOptions \<Rightarrow> 'db world \<Rightarrow> (error + ormBase) outcome \<times> 'db world" where
  "BeginWithOpts pkg orm opts w = BeginWithCtxAndOpts pkg orm Background opts w"

definition Commit :: "'db pkg \<Rightarrow> ormBase \<Rightarrow> 'db world \<Rightarrow> error option outcome \<times> 'db world" where
  "Commit pkg t w =
     (case db t of
        ExecDB \<Rightarrow> (Panic PanicTypeAssert, w)
      | ExecTx h \<Rightarrow>
          (case txCommit pkg (dbst w) h of
             (e, d) \<Rightarrow> (Ret e, emit (EvCommit h e) (w\<lparr>dbst := d\<rparr>))))"

definition Rollback :: "'db pkg \<Rightarrow> ormBase \<Rightarrow> 'db world \<Rightarrow> error option outcome \<times> 'db world" where
  "Rollback pkg t w =
     (case db t of
        ExecDB \<Rightarrow> (Panic PanicTypeAssert, w)
      | ExecTx h \<Rightarrow>
          (case txRollback pkg (dbst w) h of
             (e, d) \<Rightarrow> (Ret e, emit (EvRollback h e) (w\<lparr>dbst := d\<rparr>))))"

definition logError :: "logEntry \<Rightarrow> 'db world \<Rightarrow> 'db world" where
  "logError l w = w\<lparr>logs := logs w @ [l]\<rparr>"

text \<open>The deferred function of DoTxWithCtxAndOpts, on the values \<open>panicked\<close> and \<open>err\<close> it
  finds when it runs.\<close>

definition doTxDeferred ::
  "'db pkg \<Rightarrow> ormBase \<Rightarrow> bool \<Rightarrow> error option \<Rightarrow> 'db world \<Rightarrow> unit outcome \<times> 'db world" where
  "doTxDeferred pkg txOrm panicked err w =
     (if panicked \<or> err \<noteq> None then
        (case Rollback pkg txOrm w of
           (Panic p, w1) \<Rightarrow> (Panic p, w1)
         | (Ret None, w1) \<Rightarrow> (Ret (), w1)
         | (Ret (Some e), w1) \<Rightarrow> (Ret (), logError (RollbackFailed e panicked) w1))
      else
        (case Commit pkg txOrm w of
           (Panic p, w1) \<Rightarrow> (Panic p, w1)
         | (Ret None, w1) \<Rightarrow> (Ret (), w1)
         | (Ret (Some e), w1) \<Rightarrow> (Ret (), logError (CommitFailed e panicked) w1)))"

text \<open>
  The task is the caller's function: it returns an error (or nil) or panics, and does what
  it likes to the world. \<open>return err\<close> fixes the result before the deferred function runs;
  a panic of the task goes on after it; a panic of the deferred function itself would
  take its place.
\<close>

type_synonym 'db task = "ormBase \<Rightarrow> 'db world \<Rightarrow> error option outcome \<times> 'db world"

definition DoTxWithCtxAndOpts ::
  "'db pkg \<Rightarrow> ormBase \<Rightarrow> ctx \<Rightarrow> txOptions \<Rightarrow> 'db task \<Rightarrow> 'db world \<Rightarrow> error option outcome \<times> 'db world" where
  "DoTxWithCtxAndOpts pkg orm c opts task w =
     (case BeginWithCtxAndOpts pkg orm c opts w of
        (Panic p, w1) \<Rightarrow> (Panic p, w1)
      | (Ret (Inl e), w1) \<Rightarrow> (Ret (Some e), w1)
      | (Ret (Inr txOrm), w1) \<Rightarrow>
          (case task txOrm w1 of
             (Ret err, w2) \<Rightarrow>
               (case doTxDeferred pkg txOrm False err w2 of
                  (Panic q, w3) \<Rightarrow> (Panic q, w3)
                | (Ret u, w3) \<Rightarrow> (Ret err, w3))
           | (Panic p, w2) \<Rightarrow>
               (case doTxDeferred pkg txOrm True None w2 of
                  (Panic q, w3) \<Rightarrow> (Panic q, w3)
                | (Ret u, w3) \<Rightarrow> (Panic p, w3))))"

definition DoTxWithCtx :: "'db pkg \<Rightarrow> ormBase \<Rightarrow> ctx \<Rightarrow> 'db task \<Rightarrow> 'db world \<Rightarrow> error option outcome \<times> 'db world" where
  "DoTxWithCtx pkg orm c task w = DoTxWithCtxAndOpts pkg orm c None task w"

definition DoTx :: "'db pkg \<Rightarrow> ormBase \<Rightarrow> 'db task \<Rightarrow> 'db world \<Rightarrow> error option outcome \<times> 'db world" where
  "DoTx pkg orm task w = DoTxWithCtx pkg orm Background task w"

definition DoTxWithOpts :: "'db pkg \<Rightarrow> ormBase \<Rightarrow> txOptions \<Rightarrow> 'db task \<Rightarrow> 'db world \<Rightarrow> error option outcome \<times> 'db world" where
  "DoTxWithOpts pkg orm opts task w = DoTxWithCtxAndOpts pkg orm Background opts task w"

section \<open>Vocabulary of the properties\<close>

text \<open>The identity \<open>idv\<close> as \<open>SetInt\<close> or \<open>SetUint\<close> stores it in a field that now holds \<open>f\<close>:
  converted to the field's signedness and width.\<close>

fun identityAs :: "val \<Rightarrow> int64 \<Rightarrow> val" where
  "identityAs (VUint n x) idv = VUint n (take_bit n idv)"
| "identityAs (VInt n x) idv = VInt n (signed_take_bit (n - 1) idv)"
| "identityAs v idv = v"

definition withIdentity :: "obj \<Rightarrow> fieldIndex \<Rightarrow> int64 \<Rightarrow> obj" where
  "withIdentity ob idx idv = (case ob idx of None \<Rightarrow> ob | Some f \<Rightarrow> ob(idx \<mapsto> identityAs f idv))"

text \<open>The registry's promise about a record of a registered type: the field at the
  primary key's index is an unsigned integer exactly when the descriptor's field type
  has a bit of \<open>IsPositiveIntegerField\<close>, and a signed integer otherwise.\<close>

definition pkFieldFits :: "'db pkg \<Rightarrow> modelInfo \<Rightarrow> obj \<Rightarrow> bool" where
  "pkFieldFits pkg mi ob =
     (case ob (fieldIndex (pk mi)) of
        Some (VUint n x) \<Rightarrow> fieldType (pk mi) AND IsPositiveIntegerField pkg > 0
      | Some (VInt n x) \<Rightarrow> \<not> fieldType (pk mi) AND IsPositiveIntegerField pkg > 0
      | _ \<Rightarrow> False)"

text \<open>The 64-bit value a field holds, as \<open>Int()\<close> or \<open>Uint()\<close> reads it.\<close>

fun holds :: "val option \<Rightarrow> int64 \<Rightarrow> bool" where
  "holds (Some (VUint n x)) v = (x = v)"
| "holds (Some (VInt n x)) v = (x = v)"
| "holds f v = False"




text \<open>The type of the argument is registered: it names a struct type (directly or through
  a pointer) that the model cache knows.\<close>

fun registered :: "'db pkg \<Rightarrow> iface \<Rightarrow> bool" where
  "registered pkg (IPtr t p) = (getByFullName pkg t \<noteq> None)"
| "registered pkg (IVal t ob) = (getByFullName pkg t \<noteq> None)"
| "registered pkg md = False"

text \<open>The same for the argument of QueryTable, where a string names a table.\<close>

fun tableKnown :: "'db pkg \<Rightarrow> iface \<Rightarrow> bool" where
  "tableKnown pkg (IStr table) = (getByTable pkg (nameStrategy pkg table) \<noteq> None)"
| "tableKnown pkg md = registered pkg md"

fun isPanic :: "'a outcome \<Rightarrow> bool" where
  "isPanic (Panic p) = True"
| "isPanic (Ret x) = False"

section \<open>A small installation\<close>

text \<open>
  Three registered models with the constants of the package's field type table: a user
  with a signed 64-bit auto key, a post with an unsigned auto key and a foreign key to
  its user, and a profile whose primary key is a one-to-one relation to its user. The
  backend state counts the rows inserted; the third insert fails, a read of a user finds
  no row while the table is empty.
\<close>

definition ex_user_pk :: fieldInfo where
  "ex_user_pk = FieldInfo ''Id'' ''id'' [0] 1024 True False True None None None None"

definition ex_user :: modelInfo where
  "ex_user = ModelInfo ''main.User'' ex_user_pk False"

definition ex_post_pk :: fieldInfo where
  "ex_post_pk = FieldInfo ''Id'' ''id'' [0] 16384 True False True None None None None"

definition ex_post_user :: fieldInfo where
  "ex_post_user =
     FieldInfo ''User'' ''user_id'' [1] 524288 False True True (Some ex_user) (Some ex_user_pk) None None"

definition ex_post :: modelInfo where
  "ex_post = ModelInfo ''main.Post'' ex_post_pk False"

definition ex_profile_pk :: fieldInfo where
  "ex_profile_pk =
     FieldInfo ''User'' ''user_id'' [0] 1048576 False True True (Some ex_user) (Some ex_user_pk) None None"

definition ex_profile :: modelInfo where
  "ex_profile = ModelInfo ''main.Profile'' ex_profile_pk False"

definition ex_baser :: "nat dbBaser" where
  "ex_baser =
     \<lparr>dbRead = (\<lambda>d ex mi ob tz cols forUpdate.
         (if fullName mi = ''main.User'' \<and> d = 0 then Some ErrNoRows else None, ob, d)),
      dbInsert = (\<lambda>d ex mi ob tz.
         if d < 2 then (word_of_nat d + 7, None, ob, Suc d)
         else (0, Some (DriverError ''duplicate entry''), ob, d)),
      dbInsertOrUpdate = (\<lambda>d ex mi ob al cols. (9, None, ob, Suc d)),
      dbUpdate = (\<lambda>d ex mi ob tz cols. (1, None, ob, d)),
      dbDelete = (\<lambda>d ex mi ob tz cols. (if d = 0 then 0 else 1, None, ob, d - 1)),
      dbInsertMulti = (\<lambda>d ex mi obs bulk tz. (word_of_nat (length obs), None, obs, d + length obs))\<rparr>"

definition ex_pkg :: "nat pkg" where
  "ex_pkg =
     \<lparr>IsPositiveIntegerField = 30720,
      RelForeignKey = 524288, RelOneToOne = 1048576, RelManyToMany = 2097152,
      RelReverseOne = 4194304, RelReverseMany = 8388608,
      ExprSep = ''__'',
      getByFullName = [''main.User'' \<mapsto> ex_user, ''main.Post'' \<mapsto> ex_post, ''main.Profile'' \<mapsto> ex_profile],
      getByTable = [''user'' \<mapsto> ex_user, ''post'' \<mapsto> ex_post, ''profile'' \<mapsto> ex_profile],
      nameStrategy = (\<lambda>s. s),
      GetByAny = (\<lambda>mi name. if fullName mi = ''main.Post'' \<and> name = ''User'' then Some ex_post_user else None),
      getExistPk = (\<lambda>mi ob. True),
      ToInt64 = (\<lambda>a. case a of AInt v \<Rightarrow> Ret (word_of_int v) | _ \<Rightarrow> Panic PanicToInt64),
      zeroValue = (\<lambda>t. [[0] \<mapsto> VInt 64 0]),
      dbBasers = (\<lambda>dr. ex_baser),
      qsOne = (\<lambda>d qs ob. if d = 0 then (Some ErrNoRows, ob, d) else (None, ob([0] \<mapsto> VInt 64 7), d)),
      qsAll = (\<lambda>d qs v. (0, None, v, d)),
      BeginTx = (\<lambda>d c opts. case c of Ctx (Some e) \<Rightarrow> (0, Some e, d) | _ \<Rightarrow> (5, None, d)),
      txCommit = (\<lambda>d h. (if d = 2 then Some ErrTxDone else None, d)),
      txRollback = (\<lambda>d h. (if d = 1 then Some ErrTxDone else None, 0))\<rparr>"

definition ex_orm :: ormBase where
  "ex_orm = \<lparr>orm_alias = \<lparr>Name = ''default'', Driver = 1, TZ = 0\<rparr>, db = ExecDB\<rparr>"

text \<open>Two users at the addresses 0 and 1 (the second with a 32-bit key), a post at 2 and
  a profile at 3 that points to the first user.\<close>

definition ex_heap :: "addr \<Rightarrow> obj" where
  "ex_heap =
     (\<lambda>a. Map.empty)
       (0 := [[0] \<mapsto> VInt 64 0],
        1 := [[0] \<mapsto> VInt 32 0],
        2 := [[0] \<mapsto> VUint 64 0, [1] \<mapsto> VPtr ''main.User'' None],
        3 := [[0] \<mapsto> VPtr ''main.User'' (Some 0)])"

definition ex_world :: "nat \<Rightarrow> nat world" where
  "ex_world d = \<lparr>heap = ex_heap, nxt = 4, dbst = d, trace = [], logs = []\<rparr>"

text \<open>Tasks for a transaction: one inserts the first user and returns the insert's error,
  one returns an error of its own, one panics.\<close>

definition ex_task_insert :: "nat task" where
  "ex_task_insert t w =
     (case InsertWithCtx ex_pkg t Background (IPtr ''main.User'' (Some 0)) w of
        (Panic p, w1) \<Rightarrow> (Panic p, w1)
      | (Ret (idv, err), w1) \<Rightarrow> (Ret err, w1))"

definition ex_task_panic :: "nat task" where
  "ex_task_panic t w = (Panic (PanicUser ''boom''), w)"

section \<open>Properties\<close>

subsection \<open>Words, setPk and the example heap\<close>

lemma signed_take_bit_full:
  assumes "64 \<le> n"
  shows "signed_take_bit (n - Suc 0) (x::64 word) = x"
proof (rule bit_word_eqI)
  fix k
  assume k: "k < LENGTH(64)"
  show "bit (signed_take_bit (n - Suc 0) x) k = bit x k"
  proof (cases "n - Suc 0 \<le> k")
    case True
    with assms k have "k = n - Suc 0" by simp
    with k show ?thesis by (simp add: bit_signed_take_bit_iff)
  next
    case False
    with k show ?thesis by (simp add: bit_signed_take_bit_iff min_def)
  qed
qed


lemma setPk_not_auto: "\<not> auto (pk mi) \<Longrightarrow> setPk pkg mi ind idv w = (Ret (), w)"
  by (simp add: setPk_def)

lemma setPk_fits:
  assumes "auto (pk mi)" and "pkFieldFits pkg mi (heap w a)"
  shows "setPk pkg mi (Loc a) idv w =
           (Ret (), w\<lparr>heap := (heap w)(a := withIdentity (heap w a) (fieldIndex (pk mi)) idv)\<rparr>)"
  using assms
  by (auto simp add: setPk_def pkFieldFits_def FieldByIndex_def withIdentity_def setField_def
      split: option.splits val.splits)

lemma ex_heap_at:
  "ex_heap 0 = [[0] \<mapsto> VInt 64 0]"
  "ex_heap (Suc 0) = [[0] \<mapsto> VInt 32 0]"
  "ex_heap 2 = [[0] \<mapsto> VUint 64 0, [Suc 0] \<mapsto> VPtr ''main.User'' None]"
  "ex_heap 3 = [[0] \<mapsto> VPtr ''main.User'' (Some 0)]"
  by (simp_all add: ex_heap_def)

lemma ex_heap_same:
  "ex_heap(0 := [[0] \<mapsto> VInt 64 0]) = ex_heap"
  "ex_heap(2 := [[0] \<mapsto> VUint 64 0, [Suc 0] \<mapsto> VPtr ''main.User'' None]) = ex_heap"
  "ex_heap(3 := [[0] \<mapsto> VPtr ''main.User'' (Some 0)]) = ex_heap"
  by (rule ext, simp add: ex_heap_def)+

lemmas ex_defs = ex_pkg_def ex_baser_def ex_orm_def ex_world_def ex_heap_at ex_heap_same ex_user_def
  ex_user_pk_def ex_post_def ex_post_pk_def ex_post_user_def ex_profile_def ex_profile_pk_def DbBaser_def

subsection \<open>Insert and InsertOrUpdate write the identity back\<close>




subsection \<open>Delete resets the identity\<close>

lemma withIdentity_zero:
  "pkFieldFits pkg mi ob \<Longrightarrow> holds (withIdentity ob (fieldIndex (pk mi)) 0 (fieldIndex (pk mi))) 0"
  by (auto simp add: pkFieldFits_def withIdentity_def split: option.splits val.splits)

text \<open>
  Claim C8. Delete on a pointer to a record of a registered type, when the backend call
  returns \<open>num\<close> rows and the error \<open>err\<close> and leaves the record as \<open>ob\<close>: the call returns
  \<open>(num, err)\<close>. When the error is nil, \<open>num\<close> is positive and the primary key is
  auto-generated, the caller's record is \<open>ob\<close> with the identity field set to zero. In every
  other case (an error, no row affected, a key that is not auto-generated) the caller's
  record is \<open>ob\<close>, so a backend that leaves the record alone leaves the whole heap as it was.
\<close>

theorem Delete_resets_identity:
  assumes reg: "getByFullName pkg t = Some mi"
    and del: "dbDelete (DbBaser pkg orm) (dbst w) (db orm) mi (heap w a) (TZ (orm_alias orm)) cols = (num, err, ob, d)"
    and fits: "err = None \<and> 0 < sint num \<and> auto (pk mi) \<longrightarrow> pkFieldFits pkg mi ob"
  shows "DeleteWithCtx pkg orm c (IPtr t (Some a)) cols w =
           (Ret (num, err),
            emit (EvDelete (db orm) (fullName mi) num err)
              (w\<lparr>heap := (heap w)(a := if err = None \<and> 0 < sint num \<and> auto (pk mi)
                                          then withIdentity ob (fieldIndex (pk mi)) 0 else ob),
                 dbst := d\<rparr>))
       \<and> (err = None \<and> 0 < sint num \<and> auto (pk mi) \<longrightarrow>
            holds (withIdentity ob (fieldIndex (pk mi)) 0 (fieldIndex (pk mi))) 0)
       \<and> ((err \<noteq> None \<or> sint num \<le> 0) \<and> ob = heap w a \<longrightarrow>
            heap (snd (DeleteWithCtx pkg orm c (IPtr t (Some a)) cols w)) = heap w)"
proof -
  have a: "DeleteWithCtx pkg orm c (IPtr t (Some a)) cols w =
           (Ret (num, err),
            emit (EvDelete (db orm) (fullName mi) num err)
              (w\<lparr>heap := (heap w)(a := if err = None \<and> 0 < sint num \<and> auto (pk mi)
                                          then withIdentity ob (fieldIndex (pk mi)) 0 else ob),
                 dbst := d\<rparr>))"
  proof (cases "err = None \<and> 0 < sint num \<and> auto (pk mi)")
    case True
    with fits have "pkFieldFits pkg mi ob" by simp
    with True show ?thesis
      using reg del
      by (simp add: DeleteWithCtx_def lookupModel_def setPk_fits emit_def)
  next
    case False
    then show ?thesis
      using reg del
      by (cases err) (auto simp add: DeleteWithCtx_def lookupModel_def setPk_not_auto emit_def Let_def)
  qed
  have b: "(err \<noteq> None \<or> sint num \<le> 0) \<and> ob = heap w a \<longrightarrow>
            heap (snd (DeleteWithCtx pkg orm c (IPtr t (Some a)) cols w)) = heap w"
    by (auto simp add: a emit_def)
  from a b fits withIdentity_zero [of pkg mi ob] show ?thesis by simp
qed

theorem Delete_resets_identity_witness:
  "DeleteWithCtx ex_pkg ex_orm Background (IPtr ''main.User'' (Some 1)) [] ((ex_world 1)\<lparr>heap := ex_heap(1 := [[0] \<mapsto> VInt 32 8])\<rparr>) =
     (Ret (1, None),
      \<lparr>heap = ex_heap(1 := [[0] \<mapsto> VInt 32 0]), nxt = 4, dbst = 0,
       trace = [EvDelete ExecDB ''main.User'' 1 None], logs = []\<rparr>)
   \<and> DeleteWithCtx ex_pkg ex_orm Background (IPtr ''main.User'' (Some 1)) [] ((ex_world 0)\<lparr>heap := ex_heap(1 := [[0] \<mapsto> VInt 32 8])\<rparr>) =
     (Ret (0, None),
      \<lparr>heap = ex_heap(1 := [[0] \<mapsto> VInt 32 8]), nxt = 4, dbst = 0,
       trace = [EvDelete ExecDB ''main.User'' 0 None], logs = []\<rparr>)"
proof -
  let ?h = "ex_heap(1 := [[0] \<mapsto> VInt 32 8])"
  have reg: "getByFullName ex_pkg ''main.User'' = Some ex_user"
    by (simp add: ex_pkg_def)
  have fits: "x \<longrightarrow> pkFieldFits ex_pkg ex_user [[0] \<mapsto> VInt 32 8]" for x
    by (simp add: pkFieldFits_def ex_defs)
  have d1: "dbDelete (DbBaser ex_pkg ex_orm) (dbst ((ex_world 1)\<lparr>heap := ?h\<rparr>)) (db ex_orm) ex_user
              (heap ((ex_world 1)\<lparr>heap := ?h\<rparr>) 1) (TZ (orm_alias ex_orm)) [] = (1, None, [[0] \<mapsto> VInt 32 8], 0)"
    by (simp add: ex_defs)
  have d0: "dbDelete (DbBaser ex_pkg ex_orm) (dbst ((ex_world 0)\<lparr>heap := ?h\<rparr>)) (db ex_orm) ex_user
              (heap ((ex_world 0)\<lparr>heap := ?h\<rparr>) 1) (TZ (orm_alias ex_orm)) [] = (0, None, [[0] \<mapsto> VInt 32 8], 0)"
    by (simp add: ex_defs)
  show ?thesis
    using Delete_resets_identity [OF reg d1 fits, of Background]
      Delete_resets_identity [OF reg d0 fits, of Background]
    by (simp add: emit_def withIdentity_def ex_defs)
qed

subsection \<open>DoTx\<close>

lemma DoTx_variants:
  "DoTx pkg orm task w = DoTxWithCtxAndOpts pkg orm Background None task w"
  "DoTxWithCtx pkg orm c task w = DoTxWithCtxAndOpts pkg orm c None task w"
  "DoTxWithOpts pkg orm opts task w = DoTxWithCtxAndOpts pkg orm Background opts task w"
  by (simp_all add: DoTx_def DoTxWithCtx_def DoTxWithOpts_def)

lemma Begin_gives_tx:
  "BeginWithCtxAndOpts pkg orm c opts w = (Ret (Inr txOrm), w1) \<Longrightarrow> \<exists>h. db txOrm = ExecTx h"
  by (auto simp add: BeginWithCtxAndOpts_def Let_def split: executor.splits prod.splits option.splits)

text \<open>
  Claim C1. A task run by DoTxWithCtxAndOpts (DoTx, DoTxWithCtx and DoTxWithOpts call it)
  in the transaction that Begin opened, with the outcome \<open>r\<close>: an error it returned, nil, or a
  panic. DoTx ends with exactly \<open>r\<close>: the returned error, nil, or the same panic. If \<open>r\<close> is
  an error or a panic, the transaction is rolled back and not committed; if \<open>r\<close> is nil, it is
  committed and not rolled back. An error of the rollback or of the commit is appended to
  the log and changes nothing of what DoTx returns.
\<close>

theorem DoTx_outcome:
  assumes beg: "BeginWithCtxAndOpts pkg orm c opts w = (Ret (Inr txOrm), w1)"
    and run: "task txOrm w1 = (r, w2)"
  shows "\<exists>h. db txOrm = ExecTx h \<and>
           DoTxWithCtxAndOpts pkg orm c opts task w =
             (r,
              if r = Ret None then
                (case txCommit pkg (dbst w2) h of
                   (e, d) \<Rightarrow>
                     w2\<lparr>dbst := d, trace := trace w2 @ [EvCommit h e],
                        logs := logs w2 @ (case e of None \<Rightarrow> [] | Some x \<Rightarrow> [CommitFailed x False])\<rparr>)
              else
                (case txRollback pkg (dbst w2) h of
                   (e, d) \<Rightarrow>
                     w2\<lparr>dbst := d, trace := trace w2 @ [EvRollback h e],
                        logs := logs w2 @ (case e of None \<Rightarrow> [] | Some x \<Rightarrow> [RollbackFailed x (isPanic r)])\<rparr>))"
proof -
  from Begin_gives_tx [OF beg] obtain h where h: "db txOrm = ExecTx h" ..
  have "DoTxWithCtxAndOpts pkg orm c opts task w =
             (r,
              if r = Ret None then
                (case txCommit pkg (dbst w2) h of
                   (e, d) \<Rightarrow>
                     w2\<lparr>dbst := d, trace := trace w2 @ [EvCommit h e],
                        logs := logs w2 @ (case e of None \<Rightarrow> [] | Some x \<Rightarrow> [CommitFailed x False])\<rparr>)
              else
                (case txRollback pkg (dbst w2) h of
                   (e, d) \<Rightarrow>
                     w2\<lparr>dbst := d, trace := trace w2 @ [EvRollback h e],
                        logs := logs w2 @ (case e of None \<Rightarrow> [] | Some x \<Rightarrow> [RollbackFailed x (isPanic r)])\<rparr>))"
  proof (cases r)
    case (Ret err)
    then show ?thesis
      using beg run h
      by (cases err)
        (auto simp add: DoTxWithCtxAndOpts_def doTxDeferred_def Commit_def Rollback_def emit_def
          logError_def split: prod.splits option.splits)
  next
    case (Panic p)
    then show ?thesis
      using beg run h
      by (auto simp add: DoTxWithCtxAndOpts_def doTxDeferred_def Commit_def Rollback_def emit_def
          logError_def split: prod.splits option.splits)
  qed
  with h show ?thesis by blast
qed

theorem DoTx_outcome_witness:
  "DoTxWithCtxAndOpts ex_pkg ex_orm Background None ex_task_insert (ex_world 2) =
     (Ret (Some (DriverError ''duplicate entry'')),
      \<lparr>heap = ex_heap, nxt = 4, dbst = 0,
       trace = [EvBeginTx Background None None,
                EvInsert (ExecTx 5) ''main.User'' 0 (Some (DriverError ''duplicate entry'')),
                EvRollback 5 None],
       logs = []\<rparr>)
   \<and> DoTxWithCtxAndOpts ex_pkg ex_orm Background None ex_task_panic (ex_world 1) =
     (Panic (PanicUser ''boom''),
      \<lparr>heap = ex_heap, nxt = 4, dbst = 0,
       trace = [EvBeginTx Background None None, EvRollback 5 (Some ErrTxDone)],
       logs = [RollbackFailed ErrTxDone True]\<rparr>)
   \<and> DoTxWithCtxAndOpts ex_pkg ex_orm Background None ex_task_insert (ex_world 1) =
     (Ret None,
      \<lparr>heap = ex_heap(0 := [[0] \<mapsto> VInt 64 8]), nxt = 4, dbst = 2,
       trace = [EvBeginTx Background None None, EvInsert (ExecTx 5) ''main.User'' 8 None,
                EvCommit 5 (Some ErrTxDone)],
       logs = [CommitFailed ErrTxDone False]\<rparr>)"
proof -
  let ?t = "\<lparr>orm_alias = orm_alias ex_orm, db = ExecTx 5\<rparr>"
  let ?w = "\<lambda>n. emit (EvBeginTx Background None None) (ex_world n)"
  have beg: "BeginWithCtxAndOpts ex_pkg ex_orm Background None (ex_world n) = (Ret (Inr ?t), ?w n)" for n
    by (simp add: BeginWithCtxAndOpts_def emit_def ex_defs)
  have r2: "ex_task_insert ?t (?w 2) =
      (Ret (Some (DriverError ''duplicate entry'')),
       emit (EvInsert (ExecTx 5) ''main.User'' 0 (Some (DriverError ''duplicate entry''))) (?w 2))"
    by (simp add: ex_task_insert_def InsertWithCtx_def lookupModel_def emit_def ex_defs)
  have r1: "ex_task_insert ?t (?w 1) =
      (Ret None,
       emit (EvInsert (ExecTx 5) ''main.User'' 8 None)
         ((?w 1)\<lparr>heap := ex_heap(0 := [[0] \<mapsto> VInt 64 8]), dbst := 2\<rparr>))"
    by (simp add: ex_task_insert_def InsertWithCtx_def lookupModel_def emit_def ex_defs
        setPk_def FieldByIndex_def setField_def signed_take_bit_full)
  have rp: "ex_task_panic ?t (?w 1) = (Panic (PanicUser ''boom''), ?w 1)"
    by (simp add: ex_task_panic_def)
  show ?thesis
    using DoTx_outcome [where task = ex_task_insert, OF beg [of 2] r2]
      DoTx_outcome [where task = ex_task_insert, OF beg [of 1] r1]
      DoTx_outcome [where task = ex_task_panic, OF beg [of 1] rp]
    by (simp add: emit_def ex_defs)
qed

subsection \<open>The variants without a context\<close>

text \<open>
  Claim C6. Every operation without a context argument is the operation with a context
  applied to the background context and the same remaining arguments: Read, ReadForUpdate,
  ReadOrCreate, Insert, InsertMulti, InsertOrUpdate, Update, Delete, QueryM2M, LoadRelated,
  QueryRelated, QueryTable, Raw, Begin and BeginWithOpts, DoTx and DoTxWithOpts.
\<close>

theorem context_free_is_background:
  "Read pkg orm md cols w = ReadWithCtx pkg orm Background md cols w
   \<and> ReadForUpdate pkg orm md cols w = ReadForUpdateWithCtx pkg orm Background md cols w
   \<and> ReadOrCreate n pkg orm md col1 cols w = ReadOrCreateWithCtx n pkg orm Background md col1 cols w
   \<and> Insert pkg orm md w = InsertWithCtx pkg orm Background md w
   \<and> InsertMulti pkg orm bulk mds w = InsertMultiWithCtx pkg orm Background bulk mds w
   \<and> InsertOrUpdate pkg orm md cols w = InsertOrUpdateWithCtx pkg orm Background md cols w
   \<and> Update pkg orm md cols w = UpdateWithCtx pkg orm Background md cols w
   \<and> Delete pkg orm md cols w = DeleteWithCtx pkg orm Background md cols w
   \<and> QueryM2M pkg orm md name = QueryM2MWithCtx pkg orm Background md name
   \<and> LoadRelated pkg orm md name args w = LoadRelatedWithCtx pkg orm Background md name args w
   \<and> QueryRelated pkg orm w md name = QueryRelatedWithCtx pkg orm Background w md name
   \<and> QueryTable pkg orm md = QueryTableWithCtx pkg orm Background md
   \<and> Raw orm query rawArgs = RawWithCtx orm Background query rawArgs
   \<and> Begin pkg orm w = BeginWithCtx pkg orm Background w
   \<and> BeginWithOpts pkg orm opts w = BeginWithCtxAndOpts pkg orm Background opts w
   \<and> DoTx pkg orm task w = DoTxWithCtx pkg orm Background task w
   \<and> DoTxWithOpts pkg orm opts task w = DoTxWithCtxAndOpts pkg orm Background opts task w"
  by (simp add: Read_def ReadForUpdate_def ReadOrCreate_def Insert_def InsertMulti_def
      InsertOrUpdate_def Update_def Delete_def QueryM2M_def LoadRelated_def QueryRelated_def
      QueryTable_def Raw_def Begin_def BeginWithOpts_def DoTx_def DoTxWithOpts_def)

subsection \<open>The context of the operations with a context\<close>

text \<open>No operation on a record hands its context to the backend: the result is the one for
  the background context.\<close>

lemma WithCtx_any_context:
  "ReadWithCtx pkg orm c md cols w = ReadWithCtx pkg orm Background md cols w"
  "ReadForUpdateWithCtx pkg orm c md cols w = ReadForUpdateWithCtx pkg orm Background md cols w"
  "InsertWithCtx pkg orm c md w = InsertWithCtx pkg orm Background md w"
  "InsertMultiWithCtx pkg orm c bulk mds w = InsertMultiWithCtx pkg orm Background bulk mds w"
  "InsertOrUpdateWithCtx pkg orm c md cols w = InsertOrUpdateWithCtx pkg orm Background md cols w"
  "UpdateWithCtx pkg orm c md cols w = UpdateWithCtx pkg orm Background md cols w"
  "DeleteWithCtx pkg orm c md cols w = DeleteWithCtx pkg orm Background md cols w"
  "LoadRelatedWithCtx pkg orm c md name args w = LoadRelatedWithCtx pkg orm Background md name args w"
  by (simp_all add: ReadWithCtx_def ReadForUpdateWithCtx_def InsertWithCtx_def InsertMultiWithCtx_def
      InsertOrUpdateWithCtx_def UpdateWithCtx_def DeleteWithCtx_def LoadRelatedWithCtx_def)

lemma ReadOrCreateWithCtx_any_context:
  "ReadOrCreateWithCtx n pkg orm c md col1 cols w = ReadOrCreateWithCtx n pkg orm Background md col1 cols w"
proof (induction n arbitrary: md col1 cols w)
  case 0
  show ?case by simp
next
  case (Suc n)
  show ?case
    by (simp add: Suc.IH WithCtx_any_context(3) [of pkg orm c]
        cong: outcome.case_cong prod.case_cong option.case_cong if_cong)
qed

text \<open>
  Claim C7, at a failing input. ReadWithCtx with a context that is already canceled, and
  UpdateWithCtx with a context past its deadline, on the post at address 2: the backend is
  called as for any context and its success is returned; no context error reaches the caller.
\<close>

theorem WithCtx_canceled_context_succeeds:
  "ReadWithCtx ex_pkg ex_orm (Ctx (Some ContextCanceled)) (IPtr ''main.Post'' (Some 2)) [] (ex_world 0) =
     (Ret None,
      \<lparr>heap = ex_heap, nxt = 4, dbst = 0, trace = [EvRead ExecDB ''main.Post'' False None], logs = []\<rparr>)
   \<and> UpdateWithCtx ex_pkg ex_orm (Ctx (Some DeadlineExceeded)) (IPtr ''main.Post'' (Some 2)) [] (ex_world 0) =
     (Ret (1, None),
      \<lparr>heap = ex_heap, nxt = 4, dbst = 0, trace = [EvUpdate ExecDB ''main.Post'' 1 None], logs = []\<rparr>)"
  by (simp add: ReadWithCtx_def UpdateWithCtx_def lookupModel_def emit_def ex_defs)

subsection \<open>LoadRelated on a to-one relation\<close>

lemma getMiInd_needPtr:
  "getMiInd pkg md True = Ret (mi, ind) \<Longrightarrow> \<exists>t a. md = IPtr t (Some a) \<and> ind = Loc a"
proof (cases md)
  case (IPtr t p)
  assume "getMiInd pkg md True = Ret (mi, ind)"
  with IPtr show ?thesis
    by (cases p) (auto simp add: lookupModel_def split: option.splits)
qed simp_all

lemma queryRelated_getMiInd:
  "queryRelated pkg orm w md name = Ret (mi, fi, ind, qs0) \<Longrightarrow> getMiInd pkg md True = Ret (mi, ind)"
  by (auto simp add: queryRelated_def split: outcome.splits prod.splits if_splits)

text \<open>The record that \<open>queryRelated\<close> returns is always the struct behind a non-nil pointer.\<close>

lemma queryRelated_record:
  assumes "queryRelated pkg orm w md name = Ret (mi, fi, ind, qs0)"
  shows "\<exists>t a. md = IPtr t (Some a) \<and> ind = Loc a"
  using getMiInd_needPtr [OF queryRelated_getMiInd [OF assms]] .

text \<open>
  Claim C9. LoadRelated on a field of a to-one relation (one-to-one, foreign key or reverse
  one), for a record at \<open>a\<close> whose relation field is a pointer, when \<open>queryRelated\<close> gives the
  query set \<open>qs0\<close> and the arguments parse: the query set handed to \<open>One\<close> has limit 1 and
  offset 0, whatever limit and offset the caller gave. If \<open>One\<close> succeeds, the call returns
  the count 1 and the relation field points to the new record that \<open>One\<close> filled; if \<open>One\<close>
  fails with \<open>err\<close>, the call returns 0 and \<open>err\<close> and the owning record is as it was.
\<close>

theorem LoadRelated_to_one:
  assumes qr: "queryRelated pkg orm w md name = Ret (mi, fi, Loc a, qs0)"
    and args: "loadRelatedArgs pkg 0 args (0, 0, 0, []) = Ret (rd, lim, off, ordr)"
    and one: "isToOne pkg fi"
    and fld: "heap w a (fieldIndex fi) = Some (VPtr t p)"
    and alloc: "a < nxt w"
    and qs: "qs = (if ordr = [] then qs0\<lparr>limit := 1, offset := 0, relDepth := rd\<rparr>
                   else qs0\<lparr>limit := 1, offset := 0, relDepth := rd, orders := [ordr]\<rparr>)"
    and res: "qsOne pkg (dbst w) qs (zeroValue pkg t) = (err, ob, d)"
  shows "limit qs = 1 \<and> offset qs = 0
       \<and> LoadRelatedWithCtx pkg orm c md name args w =
           (Ret (if err = None then 1 else 0, err),
            w\<lparr>heap := (heap w)
                  (nxt w := ob,
                   a := if err = None then (heap w a)(fieldIndex fi \<mapsto> VPtr t (Some (nxt w))) else heap w a),
               nxt := Suc (nxt w), dbst := d, trace := trace w @ [EvOne qs err]\<rparr>)"
proof -
  have lim: "limit qs = 1 \<and> offset qs = 0"
    by (simp add: qs)
  have ne: "a \<noteq> nxt w"
    using alloc by simp
  have same: "(heap w)(nxt w := ob, a := heap w a) = (heap w)(nxt w := ob)"
    using ne by (auto simp add: fun_eq_iff)
  have "LoadRelatedWithCtx pkg orm c md name args w =
           (Ret (if err = None then 1 else 0, err),
            w\<lparr>heap := (heap w)
                  (nxt w := ob,
                   a := if err = None then (heap w a)(fieldIndex fi \<mapsto> VPtr t (Some (nxt w))) else heap w a),
               nxt := Suc (nxt w), dbst := d, trace := trace w @ [EvOne qs err]\<rparr>)"
  proof (cases "ordr = []")
    case True
    with qs have q: "qs0\<lparr>limit := 1, offset := 0, relDepth := rd\<rparr> = qs" by simp
    show ?thesis
      using qr args one fld ne res True
      by (cases err)
        (simp_all add: LoadRelatedWithCtx_def FieldByIndex_def Let_def q emit_def setField_def same)
  next
    case False
    with qs have q: "qs0\<lparr>limit := 1, offset := 0, relDepth := rd, orders := [ordr]\<rparr> = qs" by simp
    show ?thesis
      using qr args one fld ne res False
      by (cases err)
        (simp_all add: LoadRelatedWithCtx_def FieldByIndex_def Let_def q emit_def setField_def same)
  qed
  with lim show ?thesis by simp
qed


theorem LoadRelated_to_one_witness:
  "LoadRelatedWithCtx ex_pkg ex_orm Background (IPtr ''main.Post'' (Some 2)) ''User''
       [ABool True, AInt 50, AInt 10] (ex_world 1) =
     (Ret (1, None),
      \<lparr>heap = ex_heap(4 := [[0] \<mapsto> VInt 64 7],
                      2 := [[0] \<mapsto> VUint 64 0, [1] \<mapsto> VPtr ''main.User'' (Some 4)]),
       nxt = 5, dbst = 1,
       trace = [EvOne \<lparr>qs_mi = Some ex_user, qs_cond = [(''id'', IPtr ''main.Post'' (Some 2))],
                       limit = 1, offset = 0, relDepth = 2, orders = [], qs_orm = ex_orm\<rparr> None],
       logs = []\<rparr>)
   \<and> LoadRelatedWithCtx ex_pkg ex_orm Background (IPtr ''main.Post'' (Some 2)) ''User''
       [ABool True, AInt 50, AInt 10] (ex_world 0) =
     (Ret (0, Some ErrNoRows),
      \<lparr>heap = ex_heap(4 := [[0] \<mapsto> VInt 64 0]),
       nxt = 5, dbst = 0,
       trace = [EvOne \<lparr>qs_mi = Some ex_user, qs_cond = [(''id'', IPtr ''main.Post'' (Some 2))],
                       limit = 1, offset = 0, relDepth = 2, orders = [], qs_orm = ex_orm\<rparr> (Some ErrNoRows)],
       logs = []\<rparr>)"
proof -
  let ?md = "IPtr ''main.Post'' (Some 2)"
  let ?fresh = "\<lparr>qs_mi = Some ex_user, qs_cond = [(''id'', ?md)],
                limit = 0, offset = 0, relDepth = 0, orders = [], qs_orm = ex_orm\<rparr>"
  let ?used = "\<lparr>qs_mi = Some ex_user, qs_cond = [(''id'', ?md)],
               limit = 1, offset = 0, relDepth = 2, orders = [], qs_orm = ex_orm\<rparr>"
  have qr: "queryRelated ex_pkg ex_orm (ex_world d) ?md ''User'' = Ret (ex_post, ex_post_user, Loc 2, ?fresh)" for d
    apply (simp add: queryRelated_def lookupModel_def getFieldInfo_def getRelQs_def ex_pkg_def)
    apply (simp add: ex_post_def ex_post_pk_def ex_post_user_def ex_user_pk_def)
    apply (simp add: newQuerySet_def)
    done
  have args: "loadRelatedArgs ex_pkg 0 [ABool True, AInt 50, AInt 10] (0, 0, 0, []) = Ret (2, 50, 10, [])"
    by (simp add: DefaultRelsDepth_def ex_pkg_def)
  have one: "isToOne ex_pkg ex_post_user"
    by (simp add: isToOne_def ex_pkg_def ex_post_user_def)
  have fld: "heap (ex_world d) 2 (fieldIndex ex_post_user) = Some (VPtr ''main.User'' None)" for d
    by (simp add: ex_world_def ex_heap_at ex_post_user_def)
  have alloc: "2 < nxt (ex_world d)" for d
    by (simp add: ex_world_def)
  have qs: "?used = (if [] = [] then ?fresh\<lparr>limit := 1, offset := 0, relDepth := 2\<rparr>
                   else ?fresh\<lparr>limit := 1, offset := 0, relDepth := 2, orders := [[]]\<rparr>)"
    by simp
  have res1: "qsOne ex_pkg (dbst (ex_world 1)) ?used (zeroValue ex_pkg ''main.User'') = (None, [[0] \<mapsto> VInt 64 7], 1)"
    by (simp add: ex_pkg_def ex_world_def)
  have res0: "qsOne ex_pkg (dbst (ex_world 0)) ?used (zeroValue ex_pkg ''main.User'')
                = (Some ErrNoRows, [[0] \<mapsto> VInt 64 0], 0)"
    by (simp add: ex_pkg_def ex_world_def)
  have same: "ex_heap(4 := x, 2 := [[0] \<mapsto> VUint 64 0, [Suc 0] \<mapsto> VPtr ''main.User'' None]) = ex_heap(4 := x)" for x
    by (rule ext) (simp add: ex_heap_at)
  show ?thesis
    using LoadRelated_to_one [OF qr args one fld alloc qs res1, of Background]
      LoadRelated_to_one [OF qr args one fld alloc qs res0, of Background]
    by (simp add: ex_world_def ex_heap_at same ex_post_user_def)
qed

subsection \<open>Unregistered models\<close>

lemma getMiInd_unregistered:
  assumes "\<not> registered pkg md"
  shows "\<exists>p. getMiInd pkg md True = Panic p \<and> (\<forall>t a. md = IPtr t (Some a) \<longrightarrow> p = PanicNotRegistered)"
proof (cases md)
  case (IPtr t p)
  with assms show ?thesis
    by (cases p) (simp_all add: lookupModel_def)
qed simp_all

text \<open>
  Claim C5. When the type of the record argument is not registered, \<open>getMiInd\<close> panics, with
  the model-not-registered panic if the argument is a non-nil pointer, and Read,
  ReadForUpdate, ReadOrCreate, Insert, InsertOrUpdate, Update, Delete, LoadRelated, QueryM2M
  and QueryRelated end with that same panic and leave the world as it was: no backend call,
  no query set. QueryTable on a table name or a type that is not registered panics and
  returns no query set, with table-not-exists unless the argument is the nil interface.
  InsertMulti on a sequence of an unregistered element type changes nothing either: it
  fails with ErrArgs when the sequence is empty, with a reflect panic when the first
  element is a nil pointer, and with model-not-registered otherwise.
\<close>

theorem unregistered_fails_first:
  assumes unreg: "\<not> registered pkg md"
    and unknown: "\<not> tableKnown pkg x"
    and t: "getByFullName pkg t = None"
  shows "(\<exists>p. getMiInd pkg md True = Panic p
            \<and> (\<forall>t a. md = IPtr t (Some a) \<longrightarrow> p = PanicNotRegistered)
            \<and> ReadWithCtx pkg orm c md cols w = (Panic p, w)
            \<and> ReadForUpdateWithCtx pkg orm c md cols w = (Panic p, w)
            \<and> ReadOrCreateWithCtx (Suc n) pkg orm c md col1 cols w = Some (Panic p, w)
            \<and> InsertWithCtx pkg orm c md w = (Panic p, w)
            \<and> InsertOrUpdateWithCtx pkg orm c md cols w = (Panic p, w)
            \<and> UpdateWithCtx pkg orm c md cols w = (Panic p, w)
            \<and> DeleteWithCtx pkg orm c md cols w = (Panic p, w)
            \<and> LoadRelatedWithCtx pkg orm c md name args w = (Panic p, w)
            \<and> QueryM2MWithCtx pkg orm c md name = Panic p
            \<and> QueryRelatedWithCtx pkg orm c w md name = Panic p)
       \<and> (\<exists>q. QueryTableWithCtx pkg orm c x = Panic q \<and> (x \<noteq> INil \<longrightarrow> q = PanicTableNotExists))
       \<and> InsertMultiWithCtx pkg orm c bulk (Seq t es) w =
           (case es of
              [] \<Rightarrow> Ret (0, Some ErrArgs)
            | None # es' \<Rightarrow> Panic PanicReflect
            | Some e # es' \<Rightarrow> Panic PanicNotRegistered,
            w)"
proof -
  from getMiInd_unregistered [OF unreg] obtain p
    where p: "getMiInd pkg md True = Panic p"
      and k: "\<forall>t a. md = IPtr t (Some a) \<longrightarrow> p = PanicNotRegistered"
    by blast
  have a: "ReadWithCtx pkg orm c md cols w = (Panic p, w)"
    "ReadForUpdateWithCtx pkg orm c md cols w = (Panic p, w)"
    "ReadOrCreateWithCtx (Suc n) pkg orm c md col1 cols w = Some (Panic p, w)"
    "InsertWithCtx pkg orm c md w = (Panic p, w)"
    "InsertOrUpdateWithCtx pkg orm c md cols w = (Panic p, w)"
    "UpdateWithCtx pkg orm c md cols w = (Panic p, w)"
    "DeleteWithCtx pkg orm c md cols w = (Panic p, w)"
    "LoadRelatedWithCtx pkg orm c md name args w = (Panic p, w)"
    "QueryM2MWithCtx pkg orm c md name = Panic p"
    "QueryRelatedWithCtx pkg orm c w md name = Panic p"
    by (simp_all add: p ReadWithCtx_def ReadForUpdateWithCtx_def InsertWithCtx_def
        InsertOrUpdateWithCtx_def UpdateWithCtx_def DeleteWithCtx_def LoadRelatedWithCtx_def
        QueryM2MWithCtx_def QueryRelatedWithCtx_def queryRelated_def)
  have b: "\<exists>q. QueryTableWithCtx pkg orm c x = Panic q \<and> (x \<noteq> INil \<longrightarrow> q = PanicTableNotExists)"
    using unknown by (cases x) simp_all
  have d: "InsertMultiWithCtx pkg orm c bulk (Seq t es) w =
           (case es of
              [] \<Rightarrow> Ret (0, Some ErrArgs)
            | None # es' \<Rightarrow> Panic PanicReflect
            | Some e # es' \<Rightarrow> Panic PanicNotRegistered,
            w)"
  proof (cases es)
    case Nil
    then show ?thesis by (simp add: InsertMultiWithCtx_def)
  next
    case (Cons e es')
    show ?thesis
    proof (cases e)
      case None
      with Cons show ?thesis by (simp add: InsertMultiWithCtx_def)
    next
      case (Some r)
      with Cons t show ?thesis
        by (cases r) (simp_all add: InsertMultiWithCtx_def lookupModel_def)
    qed
  qed
  from p k a b d show ?thesis by blast
qed

theorem unregistered_fails_first_witness:
  "ReadWithCtx ex_pkg ex_orm Background (IPtr ''main.Ghost'' (Some 0)) [] (ex_world 0)
     = (Panic PanicNotRegistered, ex_world 0)
   \<and> InsertWithCtx ex_pkg ex_orm Background (IPtr ''main.Ghost'' (Some 0)) (ex_world 0)
     = (Panic PanicNotRegistered, ex_world 0)
   \<and> LoadRelatedWithCtx ex_pkg ex_orm Background (IPtr ''main.Ghost'' (Some 0)) ''User'' [] (ex_world 0)
     = (Panic PanicNotRegistered, ex_world 0)
   \<and> QueryTableWithCtx ex_pkg ex_orm Background (IStr ''ghost'') = Panic PanicTableNotExists
   \<and> InsertMultiWithCtx ex_pkg ex_orm Background 100 (Seq ''main.Ghost'' [Some (Loc 0), Some (Loc 1)]) (ex_world 0)
     = (Panic PanicNotRegistered, ex_world 0)"
proof -
  have unreg: "\<not> registered ex_pkg (IPtr ''main.Ghost'' (Some 0))"
    by (simp add: ex_pkg_def)
  have unknown: "\<not> tableKnown ex_pkg (IStr ''ghost'')"
    by (simp add: ex_pkg_def)
  have t: "getByFullName ex_pkg ''main.Ghost'' = None"
    by (simp add: ex_pkg_def)
  show ?thesis
    using unregistered_fails_first [OF unreg unknown t, where orm = ex_orm and c = Background
        and cols = "[]" and w = "ex_world 0" and name = "''User''" and args = "[]" and bulk = 100
        and es = "[Some (Loc 0), Some (Loc 1)]"]
    by auto
qed

subsection \<open>ReadOrCreate\<close>





subsection \<open>InsertMulti\<close>












end
